theory Spec2Isabelle
  imports Main "HOL-Library.Sublist"
begin

text \<open>
  The plugin keeps, in every weekly note, a block of links to the daily notes of the
  week, between a start and an end delimiter. This theory models the token formatter,
  the date classifier and the two methods that add and remove a link, as they are
  written in \<^verbatim>\<open>main.ts\<close>, and proves what they do to a note.
\<close>

section \<open>Strings of the host language\<close>

text \<open>
  A JavaScript string is modelled as a \<^typ>\<open>string\<close>: a list of code units, here
  restricted to the range 0..255. The helpers below are the \<^verbatim>\<open>String.prototype\<close>
  methods and the regular expressions the plugin uses, written as the functions they
  compute.
\<close>

abbreviation LF :: char where "LF \<equiv> CHR 0x0A"
abbreviation CR :: char where "CR \<equiv> CHR 0x0D"

definition is_ws :: "char \<Rightarrow> bool" where
  \<comment> \<open>white space and line terminators: what \<^verbatim>\<open>trim\<close> strips and \<^verbatim>\<open>\s\<close> matches\<close>
  "is_ws c = (c = CHR 0x09 \<or> c = LF \<or> c = CHR 0x0B \<or> c = CHR 0x0C \<or> c = CR
              \<or> c = CHR 0x20 \<or> c = CHR 0xA0)"

definition is_word_char :: "char \<Rightarrow> bool" where
  \<comment> \<open>the class \<^verbatim>\<open>\w\<close>, that is \<^verbatim>\<open>[A-Za-z0-9_]\<close>\<close>
  "is_word_char c =
     (let n = of_char c :: nat
      in (65 \<le> n \<and> n \<le> 90) \<or> (97 \<le> n \<and> n \<le> 122) \<or> (48 \<le> n \<and> n \<le> 57) \<or> n = 95)"

definition trimStart :: "string \<Rightarrow> string" where
  "trimStart s = dropWhile is_ws s"

definition trimEnd :: "string \<Rightarrow> string" where
  "trimEnd s = rev (dropWhile is_ws (rev s))"

definition trim :: "string \<Rightarrow> string" where
  "trim s = trimEnd (trimStart s)"

fun str_includes :: "string \<Rightarrow> string \<Rightarrow> bool" where
  \<comment> \<open>\<^verbatim>\<open>s.includes(sub)\<close>\<close>
  "str_includes [] sub = (sub = [])"
| "str_includes (c # cs) sub = (prefix sub (c # cs) \<or> str_includes cs sub)"

definition endsWith :: "string \<Rightarrow> string \<Rightarrow> bool" where
  "endsWith s e = suffix e s"

fun split_char :: "char \<Rightarrow> string \<Rightarrow> string list" where
  \<comment> \<open>\<^verbatim>\<open>s.split(c)\<close> for a one-character separator\<close>
  "split_char c [] = [[]]"
| "split_char c (x # xs) =
     (if x = c then [] # split_char c xs
      else (case split_char c xs of [] \<Rightarrow> [[x]] | p # ps \<Rightarrow> (x # p) # ps))"

function split_ws :: "string \<Rightarrow> string list" where
  \<comment> \<open>\<^verbatim>\<open>s.split(/\s+/)\<close>\<close>
  "split_ws [] = [[]]"
| "split_ws (x # xs) =
     (if is_ws x then [] # split_ws (dropWhile is_ws xs)
      else (case split_ws xs of [] \<Rightarrow> [[x]] | p # ps \<Rightarrow> (x # p) # ps))"
  by pat_completeness auto
termination
  by (relation "measure length") (auto simp: le_imp_less_Suc length_dropWhile_le)

definition first_line :: "string \<Rightarrow> string" where
  \<comment> \<open>\<^verbatim>\<open>s.split('\n')[0]\<close>\<close>
  "first_line s = takeWhile (\<lambda>c. c \<noteq> LF) s"

fun crlf_to_lf :: "string \<Rightarrow> string" where
  \<comment> \<open>\<^verbatim>\<open>s.replace(/\r\n/g, '\n')\<close>\<close>
  "crlf_to_lf [] = []"
| "crlf_to_lf [c] = [c]"
| "crlf_to_lf (c # d # cs) =
     (if c = CR \<and> d = LF then LF # crlf_to_lf cs else c # crlf_to_lf (d # cs))"

definition normalize_content :: "string \<Rightarrow> string" where
  \<comment> \<open>\<^verbatim>\<open>s.replace(/\r\n/g, '\n').trimEnd() + '\n'\<close>\<close>
  "normalize_content s = trimEnd (crlf_to_lf s) @ [LF]"

subsection \<open>parseInt\<close>

definition digit_value :: "nat \<Rightarrow> char \<Rightarrow> nat option" where
  "digit_value radix c =
     (let n = of_char c :: nat;
          v = (if 48 \<le> n \<and> n \<le> 57 then Some (n - 48)
               else if 97 \<le> n \<and> n \<le> 122 then Some (n - 87)
               else if 65 \<le> n \<and> n \<le> 90 then Some (n - 55)
               else None)
      in case v of None \<Rightarrow> None | Some d \<Rightarrow> if d < radix then Some d else None)"

definition digits_value :: "nat \<Rightarrow> string \<Rightarrow> nat" where
  "digits_value radix ds = foldl (\<lambda>acc c. acc * radix + (case digit_value radix c of None \<Rightarrow> 0 | Some d \<Rightarrow> d)) 0 ds"

definition parseInt :: "string \<Rightarrow> int option" where
  \<comment> \<open>\<^verbatim>\<open>parseInt(s)\<close> with no radix argument; \<open>None\<close> is \<^verbatim>\<open>NaN\<close>. The value is the
      mathematical integer of the digits (the host rounds it to a double).\<close>
  "parseInt s =
     (let s1 = trimStart s;
          neg = (case s1 of [] \<Rightarrow> False | c # _ \<Rightarrow> c = CHR ''-'');
          s2 = (case s1 of [] \<Rightarrow> [] | c # cs \<Rightarrow> if c = CHR ''-'' \<or> c = CHR ''+'' then cs else s1);
          hex = (prefix ''0x'' s2 \<or> prefix ''0X'' s2);
          radix = (if hex then 16 else 10);
          s3 = (if hex then drop 2 s2 else s2);
          ds = takeWhile (\<lambda>c. digit_value radix c \<noteq> None) s3
      in if ds = [] then None
         else Some ((if neg then - 1 else 1) * int (digits_value radix ds)))"

section \<open>The date library and the token formatter\<close>

text \<open>
  The plugin calls the date library \<^verbatim>\<open>moment\<close> and the host's regular-expression
  engine on a user-supplied pattern. Neither is code of the plugin: both are taken as
  a parameter, a record of the operations the plugin calls. \<open>'d\<close> is the type of
  date objects.
\<close>

datatype regex_result =
    RegexInvalid                 \<comment> \<open>\<^verbatim>\<open>new RegExp(pattern)\<close> throws\<close>
  | RegexNoMatch                 \<comment> \<open>\<^verbatim>\<open>exec\<close> returns null\<close>
  | RegexMatch "string option"   \<comment> \<open>a match, with the named group \<^verbatim>\<open>dateString\<close> if it took part\<close>

record 'd moment_lib =
  m_parse :: "string \<Rightarrow> string \<Rightarrow> bool \<Rightarrow> 'd option"
    \<comment> \<open>\<^verbatim>\<open>moment(text, format, strict)\<close>, \<open>None\<close> when the result is not valid\<close>
  m_epoch :: 'd
    \<comment> \<open>\<^verbatim>\<open>moment(0)\<close>\<close>
  m_valueOf :: "'d \<Rightarrow> int"
  m_add :: "int \<Rightarrow> string \<Rightarrow> 'd \<Rightarrow> 'd"
  m_subtract :: "int \<Rightarrow> string \<Rightarrow> 'd \<Rightarrow> 'd"
  m_startOf :: "string \<Rightarrow> 'd \<Rightarrow> 'd"
  m_endOf :: "string \<Rightarrow> 'd \<Rightarrow> 'd"
  m_format :: "string \<Rightarrow> 'd \<Rightarrow> string option"
    \<comment> \<open>\<^verbatim>\<open>date.format(token)\<close>, \<open>None\<close> when it throws\<close>
  regex_exec :: "string \<Rightarrow> string \<Rightarrow> regex_result"
    \<comment> \<open>\<^verbatim>\<open>new RegExp(pattern).exec(fileName)\<close>\<close>

subsection \<open>formatDateWithCustomTokens\<close>

definition op_fields :: "string \<Rightarrow> string list" where
  \<comment> \<open>\<^verbatim>\<open>parts[i].split('=').map(s => s.trim())\<close>\<close>
  "op_fields part = map trim (split_char (CHR ''='') part)"

definition op_name :: "string \<Rightarrow> string" where
  \<comment> \<open>\<^verbatim>\<open>operation\<close>, the first field\<close>
  "op_name part = (case op_fields part of [] \<Rightarrow> [] | operation # _ \<Rightarrow> operation)"

definition op_param :: "string \<Rightarrow> string option" where
  \<comment> \<open>\<^verbatim>\<open>param\<close>, the second field; \<open>None\<close> is \<^verbatim>\<open>undefined\<close>\<close>
  "op_param part = (case op_fields part of _ # param # _ \<Rightarrow> Some param | _ \<Rightarrow> None)"

definition param_num :: "string \<Rightarrow> int option" where
  \<comment> \<open>\<^verbatim>\<open>numVal = parseInt(param.split(/\s+/)[0])\<close>\<close>
  "param_num param = (case split_ws param of [] \<Rightarrow> None | p # _ \<Rightarrow> parseInt p)"

definition param_unit :: "string \<Rightarrow> string" where
  \<comment> \<open>\<^verbatim>\<open>unitOrArg = paramParts.length > 1 ? paramParts[1] : paramParts[0]\<close>\<close>
  "param_unit param =
     (case split_ws param of [] \<Rightarrow> [] | [p] \<Rightarrow> p | _ # u # _ \<Rightarrow> u)"

definition apply_operation :: "'d moment_lib \<Rightarrow> 'd \<Rightarrow> string \<Rightarrow> 'd" where
  \<comment> \<open>one turn of the loop over \<^verbatim>\<open>parts[1..]\<close>: the new \<^verbatim>\<open>tempDate\<close>\<close>
  "apply_operation lib tempDate part =
     (case op_param part of
        None \<Rightarrow> tempDate
      | Some param \<Rightarrow>
          if param = [] then tempDate
          else
            let operation = op_name part;
                numVal = param_num param;
                unitOrArg = param_unit param
            in if operation = ''add'' \<and> numVal \<noteq> None \<and> unitOrArg \<noteq> []
                 then m_add lib (the numVal) unitOrArg tempDate
               else if operation = ''subtract'' \<and> numVal \<noteq> None \<and> unitOrArg \<noteq> []
                 then m_subtract lib (the numVal) unitOrArg tempDate
               else if operation = ''startOf'' \<and> unitOrArg \<noteq> []
                 then m_startOf lib unitOrArg tempDate
               else if operation = ''endOf'' \<and> unitOrArg \<noteq> []
                 then m_endOf lib unitOrArg tempDate
               else tempDate)"

definition token_parts :: "string \<Rightarrow> string list" where
  \<comment> \<open>\<^verbatim>\<open>tokenExpression.split(',').map(s => s.trim())\<close>\<close>
  "token_parts tokenExpression = map trim (split_char (CHR '','') tokenExpression)"

definition token_date :: "'d moment_lib \<Rightarrow> string \<Rightarrow> 'd \<Rightarrow> 'd" where
  \<comment> \<open>the date that is formatted: the clone after every operation, left to right\<close>
  "token_date lib tokenExpression date =
     foldl (apply_operation lib) date (tl (token_parts tokenExpression))"

definition expand_token :: "'d moment_lib \<Rightarrow> string \<Rightarrow> 'd \<Rightarrow> string option" where
  \<comment> \<open>the callback of \<^verbatim>\<open>replace\<close>: \<^verbatim>\<open>tempDate.format(momentToken)\<close>\<close>
  "expand_token lib tokenExpression date =
     (case token_parts tokenExpression of
        [] \<Rightarrow> None
      | momentToken # _ \<Rightarrow> m_format lib momentToken (token_date lib tokenExpression date))"

definition placeholder_at :: "string \<Rightarrow> (string \<times> string) option" where
  \<comment> \<open>a match of \<^verbatim>\<open>\{\{([^}]+)\}\}\<close> at the head of the text: the group and the rest\<close>
  "placeholder_at s =
     (if prefix ''{{'' s then
        (let body = takeWhile (\<lambda>c. c \<noteq> CHR ''}'') (drop 2 s);
             rest = dropWhile (\<lambda>c. c \<noteq> CHR ''}'') (drop 2 s)
         in if body \<noteq> [] \<and> prefix ''}}'' rest then Some (body, drop 2 rest) else None)
      else None)"

function formatDateWithCustomTokens :: "'d moment_lib \<Rightarrow> string \<Rightarrow> 'd \<Rightarrow> string option" where
  "formatDateWithCustomTokens lib [] date = Some []"
| "formatDateWithCustomTokens lib (c # cs) date =
     (case placeholder_at (c # cs) of
        Some (tokenExpression, rest) \<Rightarrow>
          (case expand_token lib tokenExpression date of
             None \<Rightarrow> None
           | Some text \<Rightarrow> map_option ((@) text) (formatDateWithCustomTokens lib rest date))
      | None \<Rightarrow> map_option ((#) c) (formatDateWithCustomTokens lib cs date))"
  by pat_completeness auto
termination
  apply (relation "measure (\<lambda>(lib, s, date). length s)")
    apply simp
   apply simp
  subgoal for lib c cs
    using length_dropWhile_le [of "\<lambda>c. c \<noteq> CHR ''}''" "drop 2 (c # cs)"]
    by (auto simp: placeholder_at_def Let_def prefix_def split: if_splits)
  done

section \<open>Settings and the date classifier\<close>

record settings =
  dailyNoteFormat :: string
  dailyNoteFilenameRegex :: string
  weeklyNoteHeadingFormat :: string
  weeklyNoteLinkFormat :: string
  ensureWeeklyNoteHeadingExists :: bool
  weeklyNoteLinksSectionHeading :: string
  linksStartDelimiter :: string
  linksEndDelimiter :: string

definition useStrictParsing :: "string \<Rightarrow> bool" where
  \<comment> \<open>\<^verbatim>\<open>/^[YMD\W]+$/.test(format)\<close>\<close>
  "useStrictParsing format =
     (format \<noteq> [] \<and>
      list_all (\<lambda>c. c = CHR ''Y'' \<or> c = CHR ''M'' \<or> c = CHR ''D'' \<or> \<not> is_word_char c) format)"

definition file_name_of :: "string \<Rightarrow> string" where
  \<comment> \<open>\<^verbatim>\<open>filePath.substring(filePath.lastIndexOf('/') + 1)\<close>\<close>
  "file_name_of filePath = rev (takeWhile (\<lambda>c. c \<noteq> CHR ''/'') (rev filePath))"

definition dateStringForParsing ::
  "'d moment_lib \<Rightarrow> settings \<Rightarrow> string \<Rightarrow> string \<Rightarrow> string option" where
  \<comment> \<open>the text that is parsed; \<open>None\<close> where the method returns null before parsing\<close>
  "dateStringForParsing lib st filePath fileBasename =
     (if dailyNoteFilenameRegex st \<noteq> [] then
        (case regex_exec lib (dailyNoteFilenameRegex st) (file_name_of filePath) of
           RegexInvalid \<Rightarrow> None
         | RegexNoMatch \<Rightarrow> None
         | RegexMatch g \<Rightarrow>
             (case g of
                None \<Rightarrow> Some fileBasename
              | Some dateString \<Rightarrow> if dateString \<noteq> [] then Some dateString else Some fileBasename))
      else Some fileBasename)"

definition getDailyNoteDateFromPath ::
  "'d moment_lib \<Rightarrow> settings \<Rightarrow> string \<Rightarrow> string \<Rightarrow> 'd option" where
  "getDailyNoteDateFromPath lib st filePath fileBasename =
     (case dateStringForParsing lib st filePath fileBasename of
        None \<Rightarrow> None
      | Some text \<Rightarrow>
          if text = [] then None
          else m_parse lib text (dailyNoteFormat st) (useStrictParsing (dailyNoteFormat st)))"

definition getWeeklyNoteHeading :: "'d moment_lib \<Rightarrow> settings \<Rightarrow> 'd \<Rightarrow> string" where
  "getWeeklyNoteHeading lib st date =
     (case formatDateWithCustomTokens lib (weeklyNoteHeadingFormat st) date of
        Some heading \<Rightarrow> heading
      | None \<Rightarrow> ''# Weekly Note'')"

section \<open>The regular expressions of the reconciler\<close>

subsection \<open>The block expression\<close>

text \<open>
  \<^verbatim>\<open>^([\s\S]*?)(START)\n?([\s\S]*?)\n?(END)([\s\S]*)$\<close> with the flag \<^verbatim>\<open>m\<close>, both
  delimiters escaped, so matched literally. The functions follow the order in which the
  backtracking matcher tries the alternatives: a lazy group takes the fewest characters
  first, \<^verbatim>\<open>\n?\<close> takes the line feed first and gives it back only when the rest
  fails. The last group takes the whole rest, where \<^verbatim>\<open>$\<close> holds. A match that begins
  after position 0 (at a later line start) exists only when one begins at position 0,
  since the first group may take any prefix: so \<^verbatim>\<open>exec\<close> is the match at position 0.
\<close>

definition match_end :: "string \<Rightarrow> string \<Rightarrow> string option" where
  \<comment> \<open>\<^verbatim>\<open>\n?(END)([\s\S]*)$\<close> at the head of the text: group 5\<close>
  "match_end END s =
     (case s of
        [] \<Rightarrow> if END = [] then Some [] else None
      | c # cs \<Rightarrow>
          if c = LF \<and> prefix END cs then Some (drop (length END) cs)
          else if prefix END s then Some (drop (length END) s)
          else None)"

fun match_links :: "string \<Rightarrow> string \<Rightarrow> (string \<times> string) option" where
  \<comment> \<open>\<^verbatim>\<open>([\s\S]*?)\n?(END)([\s\S]*)$\<close>: groups 3 and 5\<close>
  "match_links END [] = map_option (Pair []) (match_end END [])"
| "match_links END (c # cs) =
     (case match_end END (c # cs) of
        Some after \<Rightarrow> Some ([], after)
      | None \<Rightarrow> map_option (\<lambda>(links, after). (c # links, after)) (match_links END cs))"

definition match_after_start :: "string \<Rightarrow> string \<Rightarrow> (string \<times> string) option" where
  \<comment> \<open>\<^verbatim>\<open>\n?([\s\S]*?)\n?(END)([\s\S]*)$\<close>\<close>
  "match_after_start END s =
     (case s of
        [] \<Rightarrow> match_links END []
      | c # cs \<Rightarrow>
          if c = LF then (case match_links END cs of Some r \<Rightarrow> Some r | None \<Rightarrow> match_links END s)
          else match_links END s)"

definition match_start :: "string \<Rightarrow> string \<Rightarrow> string \<Rightarrow> (string \<times> string) option" where
  \<comment> \<open>\<^verbatim>\<open>(START)\n?([\s\S]*?)\n?(END)([\s\S]*)$\<close> at the head of the text\<close>
  "match_start START END s =
     (if prefix START s then match_after_start END (drop (length START) s) else None)"

fun blockRegex_exec :: "string \<Rightarrow> string \<Rightarrow> string \<Rightarrow> (string \<times> string \<times> string) option" where
  \<comment> \<open>\<^verbatim>\<open>blockRegex.exec(rawContent)\<close>: groups 1, 3 and 5\<close>
  "blockRegex_exec START END [] =
     map_option (\<lambda>(links, after). ([], links, after)) (match_start START END [])"
| "blockRegex_exec START END (c # cs) =
     (case match_start START END (c # cs) of
        Some (links, after) \<Rightarrow> Some ([], links, after)
      | None \<Rightarrow>
          map_option (\<lambda>(before, links, after). (c # before, links, after))
            (blockRegex_exec START END cs))"

subsection \<open>The link expression\<close>

text \<open>
  \<^verbatim>\<open>/!\[\[([^|\]]+?)(\.md)?([|\]][^\]]*)?\]\]/g\<close>: the name is lazy, the two
  optional groups are greedy. After \<^verbatim>\<open>[^\]]*\<close> only its longest run can be followed
  by \<^verbatim>\<open>]]\<close>, since a shorter one is followed by a character that is not a bracket.
\<close>

definition close_brackets :: "string \<Rightarrow> string option" where
  \<comment> \<open>\<^verbatim>\<open>\]\]\<close>: the rest after it\<close>
  "close_brackets s = (if prefix '']]'' s then Some (drop 2 s) else None)"

definition alias_then_close :: "string \<Rightarrow> string option" where
  \<comment> \<open>\<^verbatim>\<open>([|\]][^\]]*)?\]\]\<close>\<close>
  "alias_then_close s =
     (case s of
        [] \<Rightarrow> None
      | c # cs \<Rightarrow>
          if c = CHR ''|'' \<or> c = CHR '']'' then
            (case close_brackets (dropWhile (\<lambda>x. x \<noteq> CHR '']'') cs) of
               Some rest \<Rightarrow> Some rest
             | None \<Rightarrow> close_brackets s)
          else close_brackets s)"

definition ext_then_close :: "string \<Rightarrow> string option" where
  \<comment> \<open>\<^verbatim>\<open>(\.md)?([|\]][^\]]*)?\]\]\<close>\<close>
  "ext_then_close s =
     (if prefix ''.md'' s then
        (case alias_then_close (drop 3 s) of
           Some rest \<Rightarrow> Some rest
         | None \<Rightarrow> alias_then_close s)
      else alias_then_close s)"

fun link_name :: "string \<Rightarrow> (string \<times> string) option" where
  \<comment> \<open>\<^verbatim>\<open>([^|\]]+?)(\.md)?([|\]][^\]]*)?\]\]\<close>: group 1 and the rest after the match\<close>
  "link_name [] = None"
| "link_name (c # cs) =
     (if c = CHR ''|'' \<or> c = CHR '']'' then None
      else (case ext_then_close cs of
              Some rest \<Rightarrow> Some ([c], rest)
            | None \<Rightarrow> map_option (\<lambda>(name, rest). (c # name, rest)) (link_name cs)))"

definition link_at :: "string \<Rightarrow> (string \<times> string) option" where
  \<comment> \<open>a match of the link expression at the head of the text\<close>
  "link_at s = (if prefix ''![['' s then link_name (drop 3 s) else None)"

lemma close_brackets_length: "close_brackets s = Some rest \<Longrightarrow> length rest \<le> length s"
  by (auto simp: close_brackets_def split: if_splits)

lemma alias_then_close_length: "alias_then_close s = Some rest \<Longrightarrow> length rest \<le> length s"
  using length_dropWhile_le [of "\<lambda>x. x \<noteq> CHR '']''" "tl s"]
  by (cases s) (auto simp: alias_then_close_def split: if_splits option.splits
      dest!: close_brackets_length)

lemma ext_then_close_length: "ext_then_close s = Some rest \<Longrightarrow> length rest \<le> length s"
  by (auto simp: ext_then_close_def split: if_splits option.splits dest!: alias_then_close_length)

lemma link_name_length: "link_name s = Some (name, rest) \<Longrightarrow> length rest < length s"
  by (induction s arbitrary: name) (auto split: if_splits option.splits dest!: ext_then_close_length)

lemma link_at_length: "link_at s = Some (name, rest) \<Longrightarrow> length rest < length s"
  by (auto simp: link_at_def split: if_splits dest!: link_name_length)

function extract_links :: "string \<Rightarrow> string list" where
  \<comment> \<open>group 1 of every match, in order: the loop over \<^verbatim>\<open>dailyLinkExtractionRegex.exec\<close>\<close>
  "extract_links [] = []"
| "extract_links (c # cs) =
     (case link_at (c # cs) of
        Some (name, rest) \<Rightarrow> name # extract_links rest
      | None \<Rightarrow> extract_links cs)"
  by pat_completeness auto
termination
  by (relation "measure length") (auto dest: link_at_length)

subsection \<open>The section-heading expression\<close>

definition heading_tail :: "string \<Rightarrow> nat option" where
  \<comment> \<open>\<^verbatim>\<open>(\r?\n|$)\<close> with the flag \<^verbatim>\<open>m\<close>, at the head of the text: the length it takes\<close>
  "heading_tail s =
     (if prefix [CR, LF] s then Some 2
      else if prefix [LF] s then Some 1
      else (case s of [] \<Rightarrow> Some 0 | c # _ \<Rightarrow> if c = CR then Some 0 else None))"

fun section_search :: "string \<Rightarrow> bool \<Rightarrow> nat \<Rightarrow> string \<Rightarrow> nat option" where
  \<comment> \<open>the first match of \<^verbatim>\<open>^HEADING(\r?\n|$)\<close>, searched from index \<open>i\<close>; \<open>at_line_start\<close>
      says whether \<^verbatim>\<open>^\<close> holds at \<open>i\<close>. The result is
      \<^verbatim>\<open>sectionMatch.index + sectionMatch[0].length\<close>.\<close>
  "section_search heading at_line_start i [] =
     (if at_line_start \<and> heading = [] then Some i else None)"
| "section_search heading at_line_start i (c # cs) =
     (case (if at_line_start \<and> prefix heading (c # cs)
            then heading_tail (drop (length heading) (c # cs)) else None) of
        Some n \<Rightarrow> Some (i + length heading + n)
      | None \<Rightarrow> section_search heading (c = LF \<or> c = CR) (Suc i) cs)"

subsection \<open>Substituting the basename\<close>

fun get_substitution :: "string \<Rightarrow> string \<Rightarrow> string \<Rightarrow> string \<Rightarrow> string" where
  \<comment> \<open>the replacement text of \<^verbatim>\<open>String.prototype.replace\<close> for a pattern with no capture
      group: \<^verbatim>\<open>$$\<close>, \<^verbatim>\<open>$&\<close>, \<^verbatim>\<open>$`\<close> and \<^verbatim>\<open>$'\<close> are expanded\<close>
  "get_substitution matched before after [] = []"
| "get_substitution matched before after [c] = [c]"
| "get_substitution matched before after (c # d # cs) =
     (if c = CHR ''$'' \<and> d = CHR ''$'' then CHR ''$'' # get_substitution matched before after cs
      else if c = CHR ''$'' \<and> d = CHR ''&'' then matched @ get_substitution matched before after cs
      else if c = CHR ''$'' \<and> d = CHR 0x60 then before @ get_substitution matched before after cs
      else if c = CHR ''$'' \<and> d = CHR 0x27 then after @ get_substitution matched before after cs
      else c # get_substitution matched before after (d # cs))"

fun replace_basename_from :: "string \<Rightarrow> string \<Rightarrow> string \<Rightarrow> string" where
  \<comment> \<open>\<^verbatim>\<open>format.replace(/\{\{basename\}\}/g, basename)\<close>, with the part of the format
      already passed as first argument\<close>
  "replace_basename_from before [] basename = []"
| "replace_basename_from before (c # cs) basename =
     (if prefix ''{{basename}}'' (c # cs) then
        get_substitution ''{{basename}}'' before (drop 12 (c # cs)) basename
          @ replace_basename_from (before @ ''{{basename}}'') (drop 12 (c # cs)) basename
      else c # replace_basename_from (before @ [c]) cs basename)"

definition replace_basename :: "string \<Rightarrow> string \<Rightarrow> string" where
  "replace_basename format basename = replace_basename_from [] format basename"

section \<open>The block reconciler\<close>

subsection \<open>The entry map\<close>

text \<open>
  \<^verbatim>\<open>existingBasenamesMap\<close> is a \<^verbatim>\<open>Map\<close>: it iterates in insertion order, and setting a
  key that is present keeps the key's place. It is a list of pairs with distinct keys.
\<close>

type_synonym 'd entries = "(string \<times> 'd) list"

fun map_set :: "'d entries \<Rightarrow> string \<Rightarrow> 'd \<Rightarrow> 'd entries" where
  "map_set [] k v = [(k, v)]"
| "map_set ((k', v') # m) k v = (if k' = k then (k, v) # m else (k', v') # map_set m k v)"

definition map_has :: "'d entries \<Rightarrow> string \<Rightarrow> bool" where
  "map_has m k = (k \<in> set (map fst m))"

definition link_date :: "'d moment_lib \<Rightarrow> settings \<Rightarrow> string \<Rightarrow> 'd" where
  \<comment> \<open>the date stored for an existing link: its parsed date, or \<^verbatim>\<open>moment(0)\<close>\<close>
  "link_date lib st basename =
     (case getDailyNoteDateFromPath lib st basename basename of
        Some date \<Rightarrow> date
      | None \<Rightarrow> m_epoch lib)"

definition collect_entries :: "'d moment_lib \<Rightarrow> settings \<Rightarrow> string list \<Rightarrow> 'd entries" where
  \<comment> \<open>the loop that fills the map from the matched names\<close>
  "collect_entries lib st names = foldl (\<lambda>m basename. map_set m basename (link_date lib st basename)) [] names"

definition sortedBasenames :: "'d moment_lib \<Rightarrow> 'd entries \<Rightarrow> string list" where
  \<comment> \<open>\<^verbatim>\<open>Array.from(map.entries()).sort(([, a], [, b]) => a.valueOf() - b.valueOf()).map(([k]) => k)\<close>;
      the host's sort is stable\<close>
  "sortedBasenames lib m = map fst (sort_key (\<lambda>(basename, date). m_valueOf lib date) m)"


definition render_line :: "'d moment_lib \<Rightarrow> settings \<Rightarrow> 'd entries \<Rightarrow> 'd \<Rightarrow> string \<Rightarrow> string option" where
  "render_line lib st m fallbackDate basename =
     (let dateForThisLink = (case map_of m basename of Some date \<Rightarrow> date | None \<Rightarrow> fallbackDate);
          linkLine = replace_basename (weeklyNoteLinkFormat st) basename
      in formatDateWithCustomTokens lib linkLine dateForThisLink)"

fun all_lines :: "string option list \<Rightarrow> string list option" where
  \<comment> \<open>the lines, or \<open>None\<close> when formatting one of them throws\<close>
  "all_lines [] = Some []"
| "all_lines (None # _) = None"
| "all_lines (Some l # ls) = map_option ((#) l) (all_lines ls)"

fun join_lines :: "string list \<Rightarrow> string" where
  \<comment> \<open>\<^verbatim>\<open>lines.join('\n')\<close>\<close>
  "join_lines [] = []"
| "join_lines [l] = l"
| "join_lines (l # ls) = l @ LF # join_lines ls"

definition newLinksBlockText :: "'d moment_lib \<Rightarrow> settings \<Rightarrow> 'd entries \<Rightarrow> 'd \<Rightarrow> string option" where
  "newLinksBlockText lib st m fallbackDate =
     map_option join_lines (all_lines (map (render_line lib st m fallbackDate) (sortedBasenames lib m)))"

definition block_text :: "string \<Rightarrow> string \<Rightarrow> string \<Rightarrow> string" where
  \<comment> \<open>\<^verbatim>\<open>START + '\n' + newLinksBlockText + (newLinksBlockText.length > 0 ? '\n' : '') + END\<close>\<close>
  "block_text START END text = START @ [LF] @ text @ (if text \<noteq> [] then [LF] else []) @ END"

subsection \<open>The vault\<close>

text \<open>
  The vault is the map from paths to what \<^verbatim>\<open>getAbstractFileByPath\<close> returns there: a
  file with its text, a folder, or nothing. \<^verbatim>\<open>create\<close>, \<^verbatim>\<open>createFolder\<close> and
  \<^verbatim>\<open>modify\<close> update the map at one path; \<^verbatim>\<open>read\<close> and \<^verbatim>\<open>cachedRead\<close> return
  the file's text.
\<close>

datatype node = TFile string | TFolder

type_synonym vault = "string \<Rightarrow> node option"

datatype outcome =
    DelimitersNotConfigured  \<comment> \<open>the notice that the delimiters are not configured, then return\<close>
  | FolderPathIsFile         \<comment> \<open>the notice that the folder path is a file, then return false\<close>
  | NotePathIsFolder         \<comment> \<open>the notice that the note path is a folder, then return false\<close>
  | NotAFile                 \<comment> \<open>removal: the path is not a file, silent return\<close>
  | NoBlock                  \<comment> \<open>removal: the block expression does not match, silent return\<close>
  | NothingRemoved           \<comment> \<open>removal: as many entries as links, silent return\<close>
  | Unchanged                \<comment> \<open>no write; \<^verbatim>\<open>return false\<close> for an addition\<close>
  | Modified                 \<comment> \<open>\<^verbatim>\<open>vault.modify\<close>; \<^verbatim>\<open>return true\<close> for an addition\<close>
  | Threw                    \<comment> \<open>the formatter's exception leaves the method\<close>


datatype decision = Keep | Modify string | Throws

definition folder_of :: "string \<Rightarrow> string" where
  \<comment> \<open>\<^verbatim>\<open>path.substring(0, path.lastIndexOf('/'))\<close>\<close>
  "folder_of path =
     (if CHR ''/'' \<in> set path then rev (tl (dropWhile (\<lambda>c. c \<noteq> CHR ''/'') (rev path))) else [])"

definition initial_content :: "settings \<Rightarrow> string \<Rightarrow> string" where
  \<comment> \<open>the text of a weekly note that is created\<close>
  "initial_content st mainHeadingText =
     mainHeadingText @ [LF]
       @ (if weeklyNoteLinksSectionHeading st \<noteq> []
          then [LF] @ weeklyNoteLinksSectionHeading st @ [LF] else [])
       @ [LF] @ linksStartDelimiter st @ [LF] @ linksEndDelimiter st @ [LF]"

definition heading_present :: "string \<Rightarrow> string \<Rightarrow> bool" where
  \<comment> \<open>\<^verbatim>\<open>rawContent.includes(mainHeadingText.trim().split('\n')[0])\<close>\<close>
  "heading_present rawContent mainHeadingText = str_includes rawContent (first_line (trim mainHeadingText))"

subsection \<open>addOrUpdateLinkInWeeklyNote\<close>

definition insertion :: "settings \<Rightarrow> bool \<Rightarrow> string \<Rightarrow> string \<times> nat" where
  \<comment> \<open>where a new block goes: \<^verbatim>\<open>contentToInsertInto\<close> and \<^verbatim>\<open>insertionPoint\<close>\<close>
  "insertion st mainHeadingPresentInOriginal finalContentBeforeBlock =
     (let contentToInsertInto = finalContentBeforeBlock;
          section = weeklyNoteLinksSectionHeading st
      in if section \<noteq> [] then
           (case section_search (trim section) True 0 contentToInsertInto of
              Some insertionPoint \<Rightarrow> (contentToInsertInto, insertionPoint)
            | None \<Rightarrow>
                (let extended = contentToInsertInto
                       @ (if endsWith contentToInsertInto [LF] then [] else [LF])
                       @ (if trim contentToInsertInto = [] then [] else [LF])
                       @ section @ [LF]
                 in (extended, length extended)))
         else if mainHeadingPresentInOriginal
                 \<or> (ensureWeeklyNoteHeadingExists st \<and> \<not> mainHeadingPresentInOriginal) then
           (if LF \<in> set contentToInsertInto
            then (contentToInsertInto, length (takeWhile (\<lambda>c. c \<noteq> LF) contentToInsertInto) + 1)
            else (contentToInsertInto, length contentToInsertInto))
         else (contentToInsertInto, length contentToInsertInto))"

definition blockToInsert :: "settings \<Rightarrow> string \<Rightarrow> nat \<Rightarrow> string \<Rightarrow> string" where
  "blockToInsert st contentToInsertInto insertionPoint text =
     (if insertionPoint > 0
         \<and> \<not> endsWith (take insertionPoint contentToInsertInto) [LF, LF]
         \<and> \<not> endsWith (take insertionPoint contentToInsertInto) [LF]
      then [LF] else [])
     @ block_text (linksStartDelimiter st) (linksEndDelimiter st) text @ [LF]"

definition insert_block :: "settings \<Rightarrow> bool \<Rightarrow> string \<Rightarrow> string \<Rightarrow> string" where
  \<comment> \<open>the text with a new block: the branch for a note that has no block\<close>
  "insert_block st mainHeadingPresentInOriginal finalContentBeforeBlock text =
     (case insertion st mainHeadingPresentInOriginal finalContentBeforeBlock of
        (contentToInsertInto, insertionPoint) \<Rightarrow>
          take insertionPoint contentToInsertInto
            @ blockToInsert st contentToInsertInto insertionPoint text
            @ drop insertionPoint contentToInsertInto)"

type_synonym block_expression = "string \<Rightarrow> string \<Rightarrow> string \<Rightarrow> (string \<times> string \<times> string) option"

definition upsert_content_with ::
  "block_expression \<Rightarrow> 'd moment_lib \<Rightarrow> settings \<Rightarrow> string \<Rightarrow> bool \<Rightarrow> string \<Rightarrow> 'd \<Rightarrow> string
     \<Rightarrow> decision" where
  \<comment> \<open>the method from the block expression on, once the note's text is at hand. The
      method exists in two copies that differ in the block expression only, which is
      the first argument.\<close>
  "upsert_content_with blockRegex lib st mainHeadingText mainHeadingPresentInOriginal rawContent
       dailyNoteDate dailyFileBasename =
     (let START = linksStartDelimiter st;
          END = linksEndDelimiter st;
          match = blockRegex START END rawContent;
          hasBlock = (match \<noteq> None);
          contentBeforeBlock = (case match of Some (b, l, a) \<Rightarrow> b | None \<Rightarrow> []);
          currentLinksBlockContent = (case match of Some (b, l, a) \<Rightarrow> l | None \<Rightarrow> []);
          contentAfterBlock = (case match of Some (b, l, a) \<Rightarrow> a | None \<Rightarrow> []);
          existing = (if hasBlock then collect_entries lib st (extract_links currentLinksBlockContent) else []);
          newLinkAlreadyExists = map_has existing dailyFileBasename;
          existingBasenamesMap = map_set existing dailyFileBasename dailyNoteDate;
          missingHeading = (ensureWeeklyNoteHeadingExists st \<and> \<not> mainHeadingPresentInOriginal)
      in case newLinksBlockText lib st existingBasenamesMap dailyNoteDate of
           None \<Rightarrow> Throws
         | Some text \<Rightarrow>
             if newLinkAlreadyExists \<and> hasBlock \<and> trim currentLinksBlockContent = trim text then
               (if missingHeading then
                  (let updatedContentWithHeading = mainHeadingText @ [LF] @ rawContent
                   in if trim rawContent \<noteq> trim updatedContentWithHeading
                      then Modify updatedContentWithHeading else Keep)
                else Keep)
             else
               (let finalContentBeforeBlock =
                      (if missingHeading
                       then mainHeadingText @ [LF] @ (if hasBlock then contentBeforeBlock else rawContent)
                       else (if hasBlock then contentBeforeBlock else rawContent));
                    updatedFileContent =
                      (if hasBlock then
                         finalContentBeforeBlock @ block_text START END text @ contentAfterBlock
                       else insert_block st mainHeadingPresentInOriginal finalContentBeforeBlock text)
                in if normalize_content rawContent \<noteq> normalize_content updatedFileContent
                   then Modify (normalize_content updatedFileContent) else Keep))"

definition upsert_content ::
  "'d moment_lib \<Rightarrow> settings \<Rightarrow> string \<Rightarrow> bool \<Rightarrow> string \<Rightarrow> 'd \<Rightarrow> string \<Rightarrow> decision" where
  \<comment> \<open>with the block expression of \<^verbatim>\<open>main.ts\<close>\<close>
  "upsert_content = upsert_content_with blockRegex_exec"

definition addOrUpdateLinkInWeeklyNote_with ::
  "block_expression \<Rightarrow> 'd moment_lib \<Rightarrow> settings \<Rightarrow> vault \<Rightarrow> string \<Rightarrow> 'd \<Rightarrow> string
     \<Rightarrow> outcome \<times> vault" where
  "addOrUpdateLinkInWeeklyNote_with blockRegex lib st v weeklyNotePath dailyNoteDate dailyFileBasename =
     (if linksStartDelimiter st = [] \<or> linksEndDelimiter st = [] then (DelimitersNotConfigured, v)
      else
        let weeklyNoteFolderPath = folder_of weeklyNotePath
        in case v weeklyNoteFolderPath of
             Some (TFile _) \<Rightarrow> (FolderPathIsFile, v)
           | weeklyFolderAbstract \<Rightarrow>
               (let v1 = (if weeklyFolderAbstract = None then v(weeklyNoteFolderPath \<mapsto> TFolder) else v);
                    mainHeadingText = getWeeklyNoteHeading lib st dailyNoteDate
                in case v1 weeklyNotePath of
                     Some TFolder \<Rightarrow> (NotePathIsFolder, v1)
                   | weeklyNoteFile \<Rightarrow>
                       (let rawContent = (case weeklyNoteFile of
                                            Some (TFile text) \<Rightarrow> text
                                          | _ \<Rightarrow> initial_content st mainHeadingText);
                            v2 = (if weeklyNoteFile = None then v1(weeklyNotePath \<mapsto> TFile rawContent) else v1);
                            mainHeadingPresentInOriginal =
                              (if weeklyNoteFile = None then True
                               else heading_present rawContent mainHeadingText)
                        in case upsert_content_with blockRegex lib st mainHeadingText
                                  mainHeadingPresentInOriginal rawContent dailyNoteDate dailyFileBasename of
                             Keep \<Rightarrow> (Unchanged, v2)
                           | Modify text \<Rightarrow> (Modified, v2(weeklyNotePath \<mapsto> TFile text))
                           | Throws \<Rightarrow> (Threw, v2))))"

definition addOrUpdateLinkInWeeklyNote ::
  "'d moment_lib \<Rightarrow> settings \<Rightarrow> vault \<Rightarrow> string \<Rightarrow> 'd \<Rightarrow> string \<Rightarrow> outcome \<times> vault" where
  \<comment> \<open>the method of \<^verbatim>\<open>main.ts\<close>\<close>
  "addOrUpdateLinkInWeeklyNote = addOrUpdateLinkInWeeklyNote_with blockRegex_exec"

subsection \<open>The block expression of the copy under \<^verbatim>\<open>src/services\<close>\<close>

text \<open>
  \<^verbatim>\<open>src/services/VaultInteractionService.ts\<close> builds the same expression in a
  template literal with single backslashes. There \<^verbatim>\<open>\s\<close> and \<^verbatim>\<open>\S\<close> are the
  letters \<^verbatim>\<open>s\<close> and \<^verbatim>\<open>S\<close>, and \<^verbatim>\<open>\n\<close> is a line feed, so the expression is
  \<^verbatim>\<open>^([sS]*?)(START)\n?([sS]*?)\n?(END)([sS]*)$\<close> with the flag \<^verbatim>\<open>m\<close>: the three
  groups take only the letters \<^verbatim>\<open>s\<close> and \<^verbatim>\<open>S\<close>, the match begins at a line start
  and ends at a line end.
\<close>

definition is_sS :: "char \<Rightarrow> bool" where
  "is_sS c = (c = CHR ''s'' \<or> c = CHR ''S'')"

definition services_tail :: "string \<Rightarrow> string option" where
  \<comment> \<open>\<^verbatim>\<open>([sS]*)$\<close>: the longest run, which must end at a line end\<close>
  "services_tail s =
     (case dropWhile is_sS s of
        [] \<Rightarrow> Some (takeWhile is_sS s)
      | c # _ \<Rightarrow> if c = LF \<or> c = CR then Some (takeWhile is_sS s) else None)"

definition services_match_end :: "string \<Rightarrow> string \<Rightarrow> string option" where
  \<comment> \<open>\<^verbatim>\<open>\n?(END)([sS]*)$\<close>\<close>
  "services_match_end END s =
     (case (case s of
              [] \<Rightarrow> None
            | c # cs \<Rightarrow> if c = LF \<and> prefix END cs then services_tail (drop (length END) cs) else None) of
        Some after \<Rightarrow> Some after
      | None \<Rightarrow> if prefix END s then services_tail (drop (length END) s) else None)"

fun services_match_links :: "string \<Rightarrow> string \<Rightarrow> (string \<times> string) option" where
  \<comment> \<open>\<^verbatim>\<open>([sS]*?)\n?(END)([sS]*)$\<close>\<close>
  "services_match_links END [] = map_option (Pair []) (services_match_end END [])"
| "services_match_links END (c # cs) =
     (case services_match_end END (c # cs) of
        Some after \<Rightarrow> Some ([], after)
      | None \<Rightarrow>
          if is_sS c then map_option (\<lambda>(links, after). (c # links, after)) (services_match_links END cs)
          else None)"

definition services_match_start :: "string \<Rightarrow> string \<Rightarrow> string \<Rightarrow> (string \<times> string) option" where
  \<comment> \<open>\<^verbatim>\<open>(START)\n?([sS]*?)\n?(END)([sS]*)$\<close>\<close>
  "services_match_start START END s =
     (if prefix START s then
        (case drop (length START) s of
           [] \<Rightarrow> services_match_links END []
         | c # cs \<Rightarrow>
             if c = LF
             then (case services_match_links END cs of
                     Some r \<Rightarrow> Some r
                   | None \<Rightarrow> services_match_links END (c # cs))
             else services_match_links END (c # cs))
      else None)"

fun services_match_line :: "string \<Rightarrow> string \<Rightarrow> string \<Rightarrow> (string \<times> string \<times> string) option" where
  \<comment> \<open>the whole expression after \<^verbatim>\<open>^\<close>\<close>
  "services_match_line START END [] =
     map_option (\<lambda>(links, after). ([], links, after)) (services_match_start START END [])"
| "services_match_line START END (c # cs) =
     (case services_match_start START END (c # cs) of
        Some (links, after) \<Rightarrow> Some ([], links, after)
      | None \<Rightarrow>
          if is_sS c
          then map_option (\<lambda>(before, links, after). (c # before, links, after))
                 (services_match_line START END cs)
          else None)"

fun services_search :: "string \<Rightarrow> string \<Rightarrow> bool \<Rightarrow> string \<Rightarrow> (string \<times> string \<times> string) option" where
  \<comment> \<open>the first index where \<^verbatim>\<open>^\<close> holds and the expression matches\<close>
  "services_search START END at_line_start [] =
     (if at_line_start then services_match_line START END [] else None)"
| "services_search START END at_line_start (c # cs) =
     (case (if at_line_start then services_match_line START END (c # cs) else None) of
        Some r \<Rightarrow> Some r
      | None \<Rightarrow> services_search START END (c = LF \<or> c = CR) cs)"

definition services_blockRegex_exec :: block_expression where
  \<comment> \<open>\<^verbatim>\<open>blockRegex.exec(rawContent)\<close> in the copy: groups 1, 3 and 5\<close>
  "services_blockRegex_exec START END rawContent = services_search START END True rawContent"

subsection \<open>removeLinkFromWeeklyNote\<close>

definition removeLinkFromWeeklyNote ::
  "'d moment_lib \<Rightarrow> settings \<Rightarrow> vault \<Rightarrow> string \<Rightarrow> 'd \<Rightarrow> string \<Rightarrow> outcome \<times> vault" where
  "removeLinkFromWeeklyNote lib st v weeklyNotePath dailyNoteDateContext dailyFileBasenameToRemove =
     (case v weeklyNotePath of
        Some (TFile rawContent) \<Rightarrow>
          (let START = linksStartDelimiter st; END = linksEndDelimiter st
           in if START = [] \<or> END = [] then (DelimitersNotConfigured, v)
              else
                (case blockRegex_exec START END rawContent of
                   None \<Rightarrow> (NoBlock, v)
                 | Some (contentBeforeBlock, currentLinksBlockContent, contentAfterBlock) \<Rightarrow>
                     (let existingBasenamesMap =
                            collect_entries lib st
                              (filter (\<lambda>basename. basename \<noteq> dailyFileBasenameToRemove)
                                 (extract_links currentLinksBlockContent));
                          initialLinkCountInBlock = length (extract_links currentLinksBlockContent)
                      in if length existingBasenamesMap = initialLinkCountInBlock \<and> initialLinkCountInBlock > 0
                         then (NothingRemoved, v)
                         else
                           (case newLinksBlockText lib st existingBasenamesMap dailyNoteDateContext of
                              None \<Rightarrow> (Threw, v)
                            | Some text \<Rightarrow>
                                (let updatedFileContent =
                                       contentBeforeBlock @ block_text START END text @ contentAfterBlock;
                                     normalizedUpdatedContent = normalize_content updatedFileContent
                                 in if normalize_content rawContent \<noteq> normalizedUpdatedContent
                                    then (Modified, v(weeklyNotePath \<mapsto> TFile normalizedUpdatedContent))
                                    else (Unchanged, v))))))
      | _ \<Rightarrow> (NotAFile, v))"

section \<open>Strict parsing in the words of the specification\<close>

definition is_alnum :: "char \<Rightarrow> bool" where
  \<comment> \<open>a letter or a digit\<close>
  "is_alnum c =
     (let n = of_char c :: nat
      in (65 \<le> n \<and> n \<le> 90) \<or> (97 \<le> n \<and> n \<le> 122) \<or> (48 \<le> n \<and> n \<le> 57))"

definition spec_strict_format :: "string \<Rightarrow> bool" where
  \<comment> \<open>the spec's words: the format consists solely of date-token characters (Y, M, D) and
      non-alphanumeric separators\<close>
  "spec_strict_format format =
     list_all (\<lambda>c. c = CHR ''Y'' \<or> c = CHR ''M'' \<or> c = CHR ''D'' \<or> \<not> is_alnum c) format"

section \<open>A sample configuration\<close>

text \<open>
  \<open>DEFAULT_SETTINGS\<close> are the plugin's defaults. \<open>sample_lib\<close> is a small stand-in
  for the date library, used to run the functions on concrete documents: a date is an
  integer, parsed from the leading digits of the text, formatting returns the token,
  and no filename pattern matches.
\<close>

definition DEFAULT_SETTINGS :: settings where
  "DEFAULT_SETTINGS =
     \<lparr> dailyNoteFormat = ''YYYY-MM-DD'',
       dailyNoteFilenameRegex = [],
       weeklyNoteHeadingFormat = ''# Week {{W}} ({{MMMM D}} to {{MMMM D, add=6,days}})'',
       weeklyNoteLinkFormat = ''- ![[{{basename}}]]'',
       ensureWeeklyNoteHeadingExists = True,
       weeklyNoteLinksSectionHeading = ''## Daily Notes'',
       linksStartDelimiter = ''<!-- DAILY LINKS START -->'',
       linksEndDelimiter = ''<!-- DAILY LINKS END -->'' \<rparr>"

definition sample_lib :: "int moment_lib" where
  "sample_lib =
     \<lparr> m_parse = (\<lambda>text format strict. parseInt text),
       m_epoch = 0,
       m_valueOf = (\<lambda>d. d),
       m_add = (\<lambda>n unit d. d + n),
       m_subtract = (\<lambda>n unit d. d - n),
       m_startOf = (\<lambda>unit d. d),
       m_endOf = (\<lambda>unit d. d),
       m_format = (\<lambda>token d. Some token),
       regex_exec = (\<lambda>pattern fileName. RegexNoMatch) \<rparr>"

definition short_settings :: settings where
  \<comment> \<open>the defaults with one-letter delimiters, no section heading and no heading policy\<close>
  "short_settings =
     DEFAULT_SETTINGS \<lparr> weeklyNoteHeadingFormat := ''# W'',
                        ensureWeeklyNoteHeadingExists := False,
                        weeklyNoteLinksSectionHeading := [],
                        linksStartDelimiter := ''<'',
                        linksEndDelimiter := ''>'' \<rparr>"

section \<open>The token formatter skips what it does not recognise\<close>



section \<open>Strict parsing\<close>

lemma underscore_code: "(of_char c = (95::nat)) = (c = CHR ''_'')"
proof -
  have "(of_char c = (of_char (CHR ''_'') :: nat)) = (c = CHR ''_'')"
    by (rule of_char_eq_iff)
  then show ?thesis by simp
qed

lemma is_word_char_alnum: "is_word_char c \<longleftrightarrow> is_alnum c \<or> c = CHR ''_''"
  by (auto simp: is_word_char_def is_alnum_def Let_def underscore_code)

lemma strict_char:
  "(c = CHR ''Y'' \<or> c = CHR ''M'' \<or> c = CHR ''D'' \<or> \<not> is_word_char c)
     = ((c = CHR ''Y'' \<or> c = CHR ''M'' \<or> c = CHR ''D'' \<or> \<not> is_alnum c) \<and> c \<noteq> CHR ''_'')"
proof (cases "c = CHR ''_''")
  case True
  then show ?thesis by (simp add: is_word_char_alnum)
next
  case False
  then show ?thesis by (simp add: is_word_char_alnum)
qed

lemma strict_chars:
  "list_all (\<lambda>c. c = CHR ''Y'' \<or> c = CHR ''M'' \<or> c = CHR ''D'' \<or> \<not> is_word_char c) f
     = (spec_strict_format f \<and> CHR ''_'' \<notin> set f)"
  unfolding spec_strict_format_def strict_char
  by (induction f) auto

lemma useStrictParsing_spec:
  "useStrictParsing f = (spec_strict_format f \<and> f \<noteq> [] \<and> CHR ''_'' \<notin> set f)"
  unfolding useStrictParsing_def strict_chars by blast

text \<open>
  C8, as stated, fails: the format \<open>YYYY_MM_DD\<close> consists solely of date-token
  characters and a separator that is not alphanumeric, and it is parsed leniently.
\<close>

theorem strict_iff_spec_counterexample:
  "spec_strict_format ''YYYY_MM_DD'' \<and> \<not> useStrictParsing ''YYYY_MM_DD''"
  by (simp add: spec_strict_format_def useStrictParsing_def is_alnum_def is_word_char_def)

text \<open>
  C8, amended. The classifier parses the date text in strict mode if and only if the
  format is not empty, consists solely of the characters Y, M, D and characters that are
  not alphanumeric, and has no underscore; otherwise it parses leniently.
\<close>

theorem strict_parsing_rule:
  "getDailyNoteDateFromPath lib st filePath fileBasename =
     (case dateStringForParsing lib st filePath fileBasename of
        None \<Rightarrow> None
      | Some text \<Rightarrow>
          if text = [] then None
          else m_parse lib text (dailyNoteFormat st)
                 (spec_strict_format (dailyNoteFormat st) \<and> dailyNoteFormat st \<noteq> []
                  \<and> CHR ''_'' \<notin> set (dailyNoteFormat st)))"
  unfolding getDailyNoteDateFromPath_def useStrictParsing_spec ..

theorem strict_parsing_rule_witness:
  "getDailyNoteDateFromPath sample_lib DEFAULT_SETTINGS ''2025-05-12.md'' ''2025-05-12''
     = m_parse sample_lib ''2025-05-12'' ''YYYY-MM-DD'' True
   \<and> getDailyNoteDateFromPath sample_lib (DEFAULT_SETTINGS \<lparr> dailyNoteFormat := ''YYYY_MM_DD'' \<rparr>)
        ''2025_05_12.md'' ''2025_05_12''
     = m_parse sample_lib ''2025_05_12'' ''YYYY_MM_DD'' False"
proof -
  let ?st = "DEFAULT_SETTINGS \<lparr> dailyNoteFormat := ''YYYY_MM_DD'' \<rparr>"
  have d: "dateStringForParsing sample_lib DEFAULT_SETTINGS ''2025-05-12.md'' ''2025-05-12'' = Some ''2025-05-12''"
    "dateStringForParsing sample_lib ?st ''2025_05_12.md'' ''2025_05_12'' = Some ''2025_05_12''"
    by (simp_all add: dateStringForParsing_def DEFAULT_SETTINGS_def)
  have f: "dailyNoteFormat DEFAULT_SETTINGS = ''YYYY-MM-DD''" "dailyNoteFormat ?st = ''YYYY_MM_DD''"
    by (simp_all add: DEFAULT_SETTINGS_def)
  have s: "spec_strict_format ''YYYY-MM-DD''"
    by (simp add: spec_strict_format_def is_alnum_def)
  have "getDailyNoteDateFromPath sample_lib DEFAULT_SETTINGS ''2025-05-12.md'' ''2025-05-12''
     = m_parse sample_lib ''2025-05-12'' ''YYYY-MM-DD'' True"
    using strict_parsing_rule [of sample_lib DEFAULT_SETTINGS "''2025-05-12.md''" "''2025-05-12''"]
    unfolding d f by (simp add: s)
  moreover have "getDailyNoteDateFromPath sample_lib ?st ''2025_05_12.md'' ''2025_05_12''
     = m_parse sample_lib ''2025_05_12'' ''YYYY_MM_DD'' False"
    using strict_parsing_rule [of sample_lib ?st "''2025_05_12.md''" "''2025_05_12''"]
    unfolding d f by simp
  ultimately show ?thesis by simp
qed


section \<open>Delimiters that are not configured\<close>

lemma addOrUpdate_no_delimiters:
  assumes "linksStartDelimiter st = [] \<or> linksEndDelimiter st = []"
  shows "addOrUpdateLinkInWeeklyNote lib st v weeklyNotePath date basename = (DelimitersNotConfigured, v)"
  unfolding addOrUpdateLinkInWeeklyNote_def addOrUpdateLinkInWeeklyNote_with_def upsert_content_def using assms by (simp only: if_True)

lemma remove_no_file:
  assumes "v weeklyNotePath = None"
  shows "removeLinkFromWeeklyNote lib st v weeklyNotePath date basename = (NotAFile, v)"
  unfolding removeLinkFromWeeklyNote_def using assms by simp

lemma remove_folder:
  assumes "v weeklyNotePath = Some TFolder"
  shows "removeLinkFromWeeklyNote lib st v weeklyNotePath date basename = (NotAFile, v)"
  unfolding removeLinkFromWeeklyNote_def using assms by simp

lemma remove_no_delimiters:
  assumes "v weeklyNotePath = Some (TFile raw)"
    and "linksStartDelimiter st = [] \<or> linksEndDelimiter st = []"
  shows "removeLinkFromWeeklyNote lib st v weeklyNotePath date basename = (DelimitersNotConfigured, v)"
  unfolding removeLinkFromWeeklyNote_def using assms
  by (simp only: Let_def option.case node.case if_True)

text \<open>
  C4, as stated, fails for a removal: with an empty delimiter and no weekly note at the
  path, the removal returns silently, before the delimiters are looked at.
\<close>

theorem remove_config_error_counterexample:
  "linksStartDelimiter (short_settings \<lparr> linksStartDelimiter := [] \<rparr>) = []
   \<and> fst (removeLinkFromWeeklyNote sample_lib (short_settings \<lparr> linksStartDelimiter := [] \<rparr>)
            Map.empty ''w.md'' 0 ''a'') \<noteq> DelimitersNotConfigured"
  by (simp add: remove_no_file)

text \<open>
  C4, amended. When the start or the end delimiter is empty, an addition reports that
  the delimiters are not configured and returns false, and a removal reports it when the
  weekly note exists as a file and returns silently otherwise; in every case the vault
  is left as it was.
\<close>

theorem empty_delimiters_refused:
  assumes "linksStartDelimiter st = [] \<or> linksEndDelimiter st = []"
  shows "addOrUpdateLinkInWeeklyNote lib st v weeklyNotePath date basename = (DelimitersNotConfigured, v)
       \<and> removeLinkFromWeeklyNote lib st v weeklyNotePath date basename =
           ((case v weeklyNotePath of Some (TFile content) \<Rightarrow> DelimitersNotConfigured | _ \<Rightarrow> NotAFile), v)"
proof (cases "v weeklyNotePath")
  case None
  then show ?thesis using assms by (simp add: addOrUpdate_no_delimiters remove_no_file)
next
  case (Some n)
  show ?thesis
  proof (cases n)
    case (TFile content)
    with Some assms show ?thesis by (simp add: addOrUpdate_no_delimiters remove_no_delimiters)
  next
    case TFolder
    with Some assms show ?thesis by (simp add: addOrUpdate_no_delimiters remove_folder)
  qed
qed

theorem empty_delimiters_refused_witness:
  "linksEndDelimiter (short_settings \<lparr> linksEndDelimiter := [] \<rparr>) = []
   \<and> addOrUpdateLinkInWeeklyNote sample_lib (short_settings \<lparr> linksEndDelimiter := [] \<rparr>)
        (Map.empty(''w.md'' \<mapsto> TFile ''x'')) ''w.md'' 5 ''5''
       = (DelimitersNotConfigured, Map.empty(''w.md'' \<mapsto> TFile ''x''))
   \<and> removeLinkFromWeeklyNote sample_lib (short_settings \<lparr> linksEndDelimiter := [] \<rparr>)
        (Map.empty(''w.md'' \<mapsto> TFile ''x'')) ''w.md'' 5 ''5''
       = (DelimitersNotConfigured, Map.empty(''w.md'' \<mapsto> TFile ''x''))"
proof -
  let ?st = "short_settings \<lparr> linksEndDelimiter := [] \<rparr>"
  have e: "linksEndDelimiter ?st = []" by simp
  then have "linksStartDelimiter ?st = [] \<or> linksEndDelimiter ?st = []" by simp
  from empty_delimiters_refused [OF this, of sample_lib "Map.empty(''w.md'' \<mapsto> TFile ''x'')" "''w.md''" 5 "''5''"]
  show ?thesis using e by simp
qed

section \<open>The entry map\<close>










section \<open>The order of the rendered links\<close>






section \<open>Removing a name that is not there\<close>


section \<open>What the block expression matches\<close>






section \<open>The two branches of an addition\<close>



section \<open>The note after a call\<close>

lemma folder_of_differs: "p \<noteq> [] \<Longrightarrow> folder_of p \<noteq> p"
proof -
  assume p: "p \<noteq> []"
  show ?thesis
  proof (cases "CHR ''/'' \<in> set p")
    case True
    then have "dropWhile (\<lambda>c. c \<noteq> CHR ''/'') (rev p) \<noteq> []" by simp
    then have "length (tl (dropWhile (\<lambda>c. c \<noteq> CHR ''/'') (rev p)))
                 < length (dropWhile (\<lambda>c. c \<noteq> CHR ''/'') (rev p))" by simp
    also have "\<dots> \<le> length (rev p)" by (rule length_dropWhile_le)
    finally have "length (folder_of p) < length p" using True by (simp add: folder_of_def)
    then show ?thesis by auto
  next
    case False
    with p show ?thesis by (simp add: folder_of_def)
  qed
qed



section \<open>Text outside the region\<close>






section \<open>The first pair of delimiters\<close>






section \<open>Where a new block goes\<close>





section \<open>One region\<close>





section \<open>One line for each basename\<close>





section \<open>Reading back what was written\<close>















section \<open>The entries read back from a rendered region\<close>














section \<open>The same addition twice\<close>










section \<open>An addition followed by the removal of the same link\<close>









section \<open>The copy of the reconciler under src/services\<close>

lemma services_tail_sS: "services_tail s = Some a \<Longrightarrow> list_all is_sS a"
  by (auto simp: services_tail_def list_all_iff split: list.splits if_splits dest: set_takeWhileD)

lemma services_match_end_sS:
  assumes "services_match_end END s = Some a"
  shows "list_all is_sS a"
proof -
  from assms have "\<exists>x. services_tail x = Some a"
    by (auto simp: services_match_end_def split: list.splits if_splits option.splits)
  then show ?thesis using services_tail_sS by blast
qed

lemma services_match_links_sS:
  "services_match_links END s = Some (l, a) \<Longrightarrow> list_all is_sS l \<and> list_all is_sS a"
proof (induction s arbitrary: l)
  case Nil
  then have "services_match_end END [] = Some a" "l = []" by auto
  with services_match_end_sS [of END "[]" a] show ?case by simp
next
  case (Cons c cs)
  show ?case
  proof (cases "services_match_end END (c # cs)")
    case (Some a')
    with Cons.prems have "services_match_end END (c # cs) = Some a" "l = []" by auto
    with services_match_end_sS [of END "c # cs" a] show ?thesis by simp
  next
    case None
    with Cons.prems obtain l' where "is_sS c" "services_match_links END cs = Some (l', a)" "l = c # l'"
      by (auto split: if_splits)
    with Cons.IH [of l'] show ?thesis by simp
  qed
qed

lemma services_match_start_sS:
  assumes "services_match_start START END s = Some (l, a)"
  shows "list_all is_sS l \<and> list_all is_sS a"
proof -
  from assms have "\<exists>x. services_match_links END x = Some (l, a)"
    by (auto simp del: services_match_links.simps simp: services_match_start_def
        split: if_splits list.splits option.splits)
  then show ?thesis using services_match_links_sS by blast
qed

lemma services_match_line_sS:
  "services_match_line START END s = Some (b, l, a) \<Longrightarrow>
   list_all is_sS b \<and> list_all is_sS l \<and> list_all is_sS a"
proof (induction s arbitrary: b)
  case Nil
  then have "services_match_start START END [] = Some (l, a)" "b = []" by auto
  with services_match_start_sS [of START END "[]" l a] show ?case by simp
next
  case (Cons c cs)
  show ?case
  proof (cases "services_match_start START END (c # cs)")
    case (Some r)
    with Cons.prems have "services_match_start START END (c # cs) = Some (l, a)" "b = []"
      by (auto split: prod.splits)
    with services_match_start_sS [of START END "c # cs" l a] show ?thesis by simp
  next
    case None
    with Cons.prems obtain b' where
      "is_sS c" "services_match_line START END cs = Some (b', l, a)" "b = c # b'"
      by (auto split: if_splits)
    with Cons.IH [of b'] show ?thesis by simp
  qed
qed

lemma services_search_sS:
  "services_search START END at_line_start s = Some (b, l, a) \<Longrightarrow>
   list_all is_sS b \<and> list_all is_sS l \<and> list_all is_sS a"
proof (induction s arbitrary: at_line_start)
  case Nil
  then have "services_match_line START END [] = Some (b, l, a)"
    by (simp del: services_match_line.simps split: if_splits)
  then show ?case by (rule services_match_line_sS)
next
  case (Cons c cs)
  show ?case
  proof (cases "at_line_start \<and> services_match_line START END (c # cs) \<noteq> None")
    case True
    with Cons.prems have "services_match_line START END (c # cs) = Some (b, l, a)"
      by (auto simp del: services_match_line.simps)
    then show ?thesis by (rule services_match_line_sS)
  next
    case False
    with Cons.prems have "services_search START END (c = LF \<or> c = CR) cs = Some (b, l, a)"
      by (auto simp del: services_match_line.simps split: if_splits option.splits)
    then show ?thesis by (rule Cons.IH)
  qed
qed

lemma extract_links_sS: "list_all is_sS s \<Longrightarrow> extract_links s = []"
proof (induction s)
  case Nil
  then show ?case by simp
next
  case (Cons c cs)
  then have "c \<noteq> CHR ''!''" by (auto simp: is_sS_def)
  then have "link_at (c # cs) = None" by (simp add: link_at_def)
  with Cons show ?case by simp
qed

text \<open>
  In the copy, the three groups of the block expression hold only the letters s and S:
  the text before the start delimiter on its line, the region and the text after the
  end delimiter on its line. A region that the copy finds holds no link.
\<close>

theorem services_region_holds_no_link:
  assumes "services_blockRegex_exec START END raw = Some (B, C, A)"
  shows "list_all is_sS B \<and> list_all is_sS C \<and> list_all is_sS A \<and> extract_links C = []"
  using services_search_sS [of START END True raw B C A] assms extract_links_sS [of C]
  by (simp add: services_blockRegex_exec_def)

theorem services_region_holds_no_link_witness:
  "services_blockRegex_exec ''<'' ''>'' (''# W'' @ [LF] @ ''ss<'' @ [LF] @ ''S'' @ [LF] @ ''>s'' @ [LF] @ ''z'')
     = Some (''ss'', ''S'', ''s'')
   \<and> list_all is_sS ''ss'' \<and> list_all is_sS ''S'' \<and> list_all is_sS ''s'' \<and> extract_links ''S'' = []
   \<and> services_blockRegex_exec ''<'' ''>'' (''<'' @ [LF] @ ''- ![[5]]'' @ [LF] @ ''>'' @ [LF]) = None"
proof -
  have m: "services_blockRegex_exec ''<'' ''>'' (''# W'' @ [LF] @ ''ss<'' @ [LF] @ ''S'' @ [LF] @ ''>s'' @ [LF] @ ''z'')
     = Some (''ss'', ''S'', ''s'')"
    by code_simp
  have n: "services_blockRegex_exec ''<'' ''>'' (''<'' @ [LF] @ ''- ![[5]]'' @ [LF] @ ''>'' @ [LF]) = None"
    by code_simp
  from services_region_holds_no_link [OF m] m n show ?thesis by simp
qed

text \<open>
  With the default settings and an empty vault, the first addition creates the weekly
  note with its heading, its section heading and an empty block. The method of
  \<^verbatim>\<open>main.ts\<close> then writes the link into the block. The copy matches the block from the
  line of the start delimiter, with nothing before and nothing after, and writes the
  block alone: the heading and the section heading are gone.
\<close>

theorem services_first_addition_drops_headings:
  "snd (addOrUpdateLinkInWeeklyNote sample_lib DEFAULT_SETTINGS Map.empty
          ''2025/Weekly/2025-W20.md'' 12 ''2025-05-12'') ''2025/Weekly/2025-W20.md''
     = Some (TFile (''# Week W (MMMM D to MMMM D)'' @ [LF] @ [LF] @ ''## Daily Notes'' @ [LF] @ [LF]
                    @ ''<!-- DAILY LINKS START -->'' @ [LF] @ ''- ![[2025-05-12]]'' @ [LF]
                    @ ''<!-- DAILY LINKS END -->'' @ [LF]))
   \<and> services_blockRegex_exec ''<!-- DAILY LINKS START -->'' ''<!-- DAILY LINKS END -->''
        (initial_content DEFAULT_SETTINGS ''# Week W (MMMM D to MMMM D)'') = Some ([], [], [])
   \<and> snd (addOrUpdateLinkInWeeklyNote_with services_blockRegex_exec sample_lib DEFAULT_SETTINGS Map.empty
          ''2025/Weekly/2025-W20.md'' 12 ''2025-05-12'') ''2025/Weekly/2025-W20.md''
     = Some (TFile (''<!-- DAILY LINKS START -->'' @ [LF] @ ''- ![[2025-05-12]]'' @ [LF]
                    @ ''<!-- DAILY LINKS END -->'' @ [LF]))"
  by code_simp

text \<open>
  The next addition to that note, in the copy: the block now holds a link, so the block
  expression does not match; the heading is put in front, the section heading is added
  at the end and a second block is inserted after it.
\<close>

theorem services_second_addition_adds_block:
  "services_blockRegex_exec ''<!-- DAILY LINKS START -->'' ''<!-- DAILY LINKS END -->''
        (''<!-- DAILY LINKS START -->'' @ [LF] @ ''- ![[2025-05-12]]'' @ [LF]
           @ ''<!-- DAILY LINKS END -->'' @ [LF]) = None
   \<and> snd (addOrUpdateLinkInWeeklyNote_with services_blockRegex_exec sample_lib DEFAULT_SETTINGS
          (Map.empty(''2025/Weekly'' \<mapsto> TFolder,
                     ''2025/Weekly/2025-W20.md'' \<mapsto> TFile (''<!-- DAILY LINKS START -->'' @ [LF]
                        @ ''- ![[2025-05-12]]'' @ [LF] @ ''<!-- DAILY LINKS END -->'' @ [LF])))
          ''2025/Weekly/2025-W20.md'' 13 ''2025-05-13'') ''2025/Weekly/2025-W20.md''
     = Some (TFile (''# Week W (MMMM D to MMMM D)'' @ [LF]
                    @ ''<!-- DAILY LINKS START -->'' @ [LF] @ ''- ![[2025-05-12]]'' @ [LF]
                    @ ''<!-- DAILY LINKS END -->'' @ [LF] @ [LF] @ ''## Daily Notes'' @ [LF]
                    @ ''<!-- DAILY LINKS START -->'' @ [LF] @ ''- ![[2025-05-13]]'' @ [LF]
                    @ ''<!-- DAILY LINKS END -->'' @ [LF]))"
  by code_simp

end
